theory Spec2Isabelle
  imports Complex_Main "HOL-Library.AList"
begin

section \<open>txstatsd: the message processor and the pipelining sender\<close>

text \<open>
  The development embeds \<^verbatim>\<open>txstatsd/server/processor.py\<close> and the method
  \<^verbatim>\<open>Metrics.flush\<close> of \<^verbatim>\<open>txstatsd/metrics/metrics.py\<close>.

  Conventions of the embedding.
  \<^item> The source is read with the semantics of Python 2, the language in which all of it
    runs: \<^verbatim>\<open>normalize_key\<close> substitutes the \<^verbatim>\<open>str\<close> replacements
    \<^verbatim>\<open>"_"\<close>, \<^verbatim>\<open>"-"\<close> and \<^verbatim>\<open>""\<close> into byte-string keys, which
    is well-typed only where \<^verbatim>\<open>str\<close> is \<^verbatim>\<open>bytes\<close>. Hence \<^verbatim>\<open>/\<close> on two
    integers is floor division, and \<^verbatim>\<open>round\<close> rounds halves away from zero.
  \<^item> Byte strings are \<^typ>\<open>string\<close>.
  \<^item> Python floats are modelled by exact rationals: no rounding error, no infinities, no
    NaN.
  \<^item> A dictionary is an association list with distinct keys, kept in insertion order
    (\<^const>\<open>AList.update\<close> overwrites in place and appends a new key). Python 2 iterates
    a dictionary in hash order; no theorem below depends on the order.
  \<^item> A raised exception is the left summand of the result; the state that the exception
    leaves behind is not part of the model.
\<close>

subsection \<open>Python primitives\<close>

datatype py_error =
  TypeError | ValueError | ZeroDivisionError | UnboundLocalError | IndexError | KeyError

type_synonym bytes = string

definition bind_res :: "py_error + 'a \<Rightarrow> ('a \<Rightarrow> py_error + 'b) \<Rightarrow> py_error + 'b" where
  "bind_res m f = (case m of Inl e \<Rightarrow> Inl e | Inr x \<Rightarrow> f x)"

text \<open>The bytes matched by \<^verbatim>\<open>\s\<close> in a byte pattern, and stripped by
  \<^verbatim>\<open>bytes.strip()\<close>: space, tab, line feed, vertical tab, form feed, carriage return.\<close>

definition is_space :: "char \<Rightarrow> bool" where
  "is_space c \<longleftrightarrow> c \<in> set [CHR '' '', CHR 0x09, CHR 0x0A, CHR 0x0B, CHR 0x0C, CHR 0x0D]"

definition is_digit :: "char \<Rightarrow> bool" where
  "is_digit c \<longleftrightarrow> c \<in> set ''0123456789''"

definition is_slash :: "char \<Rightarrow> bool" where
  "is_slash c \<longleftrightarrow> c = CHR ''/''"

text \<open>The complement of the class \<^verbatim>\<open>[^a-zA-Z_\-0-9\.]\<close> of \<^verbatim>\<open>NON_ALNUM\<close>.\<close>

definition is_safe :: "char \<Rightarrow> bool" where
  "is_safe c \<longleftrightarrow>
     c \<in> set ''abcdefghijklmnopqrstuvwxyz'' \<or> c \<in> set ''ABCDEFGHIJKLMNOPQRSTUVWXYZ'' \<or>
     c = CHR ''_'' \<or> c = CHR ''-'' \<or> is_digit c \<or> c = CHR ''.''"

text \<open>\<^verbatim>\<open>re.compile(b"C+").sub(r, key)\<close> for a character class \<open>C\<close> and a one-byte
  replacement: scanning from the left, every maximal run of bytes of \<open>C\<close> becomes \<open>r\<close>.\<close>

function sub_runs :: "(char \<Rightarrow> bool) \<Rightarrow> char \<Rightarrow> bytes \<Rightarrow> bytes" where
  "sub_runs p r [] = []"
| "sub_runs p r (c # cs) =
     (if p c then r # sub_runs p r (dropWhile p cs) else c # sub_runs p r cs)"
  by pat_completeness auto
termination
  by (relation "measure (\<lambda>(p, r, cs). length cs)")
     (auto simp: le_imp_less_Suc length_dropWhile_le)

text \<open>\<^verbatim>\<open>bytes.strip()\<close>.\<close>

definition strip :: "bytes \<Rightarrow> bytes" where
  "strip s = rev (dropWhile is_space (rev (dropWhile is_space s)))"

text \<open>\<^verbatim>\<open>s.split(d)\<close> for a one-byte separator: always at least one field.\<close>

fun split_on :: "char \<Rightarrow> bytes \<Rightarrow> bytes list" where
  "split_on d [] = [[]]"
| "split_on d (c # cs) =
     (if c = d then [] # split_on d cs
      else (case split_on d cs of [] \<Rightarrow> [[c]] | f # fs \<Rightarrow> (c # f) # fs))"

text \<open>\<^verbatim>\<open>int(x)\<close> on a float truncates toward zero.\<close>

definition py_int :: "rat \<Rightarrow> int" where
  "py_int x = (if 0 \<le> x then \<lfloor>x\<rfloor> else \<lceil>x\<rceil>)"

text \<open>\<^verbatim>\<open>round(x)\<close> of Python 2: the nearest integer as a float, halves away from zero.\<close>

definition py_round :: "rat \<Rightarrow> rat" where
  "py_round x = of_int (if 0 \<le> x then \<lfloor>x + 1 / 2\<rfloor> else \<lceil>x - 1 / 2\<rceil>)"

text \<open>\<^verbatim>\<open>xs[:i]\<close>: a negative bound counts from the end, an excessive one is clipped.\<close>

definition py_slice_to :: "'a list \<Rightarrow> int \<Rightarrow> 'a list" where
  "py_slice_to xs i = (if i < 0 then take (nat (int (length xs) + i)) xs else take (nat i) xs)"

text \<open>\<^verbatim>\<open>xs[i]\<close> for \<open>i \<ge> 0\<close>.\<close>

definition py_index :: "'a list \<Rightarrow> nat \<Rightarrow> py_error + 'a" where
  "py_index xs i = (if i < length xs then Inr (xs ! i) else Inl IndexError)"

text \<open>\<^verbatim>\<open>"%d" % i\<close>.\<close>

fun digits_of_nat :: "nat \<Rightarrow> bytes" where
  "digits_of_nat n =
     (if n < 10 then [''0123456789'' ! n]
      else digits_of_nat (n div 10) @ [''0123456789'' ! (n mod 10)])"

definition format_d :: "int \<Rightarrow> bytes" where
  "format_d i = (if i < 0 then CHR ''-'' # digits_of_nat (nat (- i)) else digits_of_nat (nat i))"

text \<open>
  \<^verbatim>\<open>float(s)\<close> on a byte string, for decimal text: surrounding whitespace, an optional
  sign, digits with an optional fraction (at least one digit in all), an optional exponent.
  \<open>None\<close> is \<^verbatim>\<open>ValueError\<close>. The texts \<^verbatim>\<open>inf\<close>, \<^verbatim>\<open>infinity\<close> and
  \<^verbatim>\<open>nan\<close>, which \<^verbatim>\<open>float\<close> turns into values that no rational models, are
  outside the model: \<open>py_float\<close> gives \<open>None\<close> on them, and every general theorem below
  that parses a field assumes the outcome of the parse.
\<close>

definition digit_val :: "char \<Rightarrow> nat" where
  "digit_val c = of_char c - 48"

definition nat_of_digits :: "bytes \<Rightarrow> nat" where
  "nat_of_digits ds = foldl (\<lambda>a c. 10 * a + digit_val c) 0 ds"

definition split_sign :: "bytes \<Rightarrow> bool \<times> bytes" where
  "split_sign s =
     (case s of [] \<Rightarrow> (False, [])
      | c # cs \<Rightarrow> if c = CHR ''-'' then (True, cs)
                  else if c = CHR ''+'' then (False, cs) else (False, s))"

definition parse_exponent :: "bytes \<Rightarrow> int option" where
  "parse_exponent r =
     (case r of [] \<Rightarrow> Some 0
      | c # cs \<Rightarrow>
          if c = CHR ''e'' \<or> c = CHR ''E'' then
            (case split_sign cs of (neg, ds) \<Rightarrow>
               if ds \<noteq> [] \<and> list_all is_digit ds
               then Some (if neg then - int (nat_of_digits ds) else int (nat_of_digits ds))
               else None)
          else None)"

definition scale10 :: "rat \<Rightarrow> int \<Rightarrow> rat" where
  "scale10 m e = (if 0 \<le> e then m * 10 ^ nat e else m / 10 ^ nat (- e))"

definition py_float :: "bytes \<Rightarrow> rat option" where
  "py_float s =
     (case split_sign (strip s) of (neg, u) \<Rightarrow>
        let ip = takeWhile is_digit u; r1 = dropWhile is_digit u;
            fr = (case r1 of [] \<Rightarrow> ([], [])
                  | c # cs \<Rightarrow> if c = CHR ''.''
                              then (takeWhile is_digit cs, dropWhile is_digit cs)
                              else ([], r1));
            fp = fst fr; r2 = snd fr
        in if ip = [] \<and> fp = [] then None
           else (case parse_exponent r2 of None \<Rightarrow> None
                 | Some e \<Rightarrow>
                     let m = of_nat (nat_of_digits (ip @ fp))
                     in Some (scale10 (if neg then - m else m) (e - int (length fp)))))"

text \<open>The argument of \<^verbatim>\<open>float(rate)\<close> in \<^verbatim>\<open>compose_counter_metric\<close>: the integer
  default \<^verbatim>\<open>1\<close>, or the bytes captured by \<^verbatim>\<open>RATE\<close>.\<close>

datatype py_arg = PyInt int | PyBytes bytes

definition to_float :: "py_arg \<Rightarrow> rat option" where
  "to_float a = (case a of PyInt n \<Rightarrow> Some (of_int n) | PyBytes b \<Rightarrow> py_float b)"

text \<open>\<^verbatim>\<open>RATE = re.compile(b"^@([\d\.]+)")\<close>: \<^verbatim>\<open>RATE.match(f)\<close> succeeds when \<open>f\<close>
  starts with \<^verbatim>\<open>@\<close> and at least one digit or full stop; group 1 is the longest such
  run. \<open>None\<close> is no match.\<close>

definition is_rate_char :: "char \<Rightarrow> bool" where
  "is_rate_char c \<longleftrightarrow> is_digit c \<or> c = CHR ''.''"

definition RATE_match :: "bytes \<Rightarrow> bytes option" where
  "RATE_match f =
     (case f of [] \<Rightarrow> None
      | c # cs \<Rightarrow>
          if c = CHR ''@'' \<and> takeWhile is_rate_char cs \<noteq> []
          then Some (takeWhile is_rate_char cs) else None)"

subsection \<open>Key normalisation\<close>

definition normalize_key :: "bytes \<Rightarrow> bytes" where
  "normalize_key key =
     (let key = sub_runs is_space (CHR ''_'') key;
          key = sub_runs is_slash (CHR ''-'') key;
          key = filter is_safe key
      in key)"

subsection \<open>The processor and its collaborators\<close>

text \<open>An emission is a triple of metric name, value and timestamp.\<close>

type_synonym emission = "bytes \<times> rat \<times> int"

text \<open>
  The state of a \<^verbatim>\<open>MessageProcessor\<close>. The type variables stand for the objects the
  processor only stores: \<open>'m\<close> a \<^verbatim>\<open>MeterMetricReporter\<close>, \<open>'f\<close> a plug-in factory,
  \<open>'q\<close> a metric built by a factory. Two fields record effects outside the object:
  \<open>clock\<close> counts the calls of \<^verbatim>\<open>time_function\<close> made so far, and \<open>bad_lines\<close>
  holds the messages that \<^verbatim>\<open>fail\<close> has logged.
\<close>

record ('m, 'f, 'q) processor =
  clock :: nat
  bad_lines :: "bytes list"
  process_timings :: "(bytes \<times> rat) list"
  by_type :: "(bytes \<times> nat) list"
  last_flush_duration :: rat
  last_process_duration :: rat
  timer_metrics :: "(bytes \<times> rat list) list"
  counter_metrics :: "(bytes \<times> rat) list"
  gauge_metrics :: "(rat \<times> bytes) list"
  meter_metrics :: "(bytes \<times> 'm) list"
  plugins :: "(bytes \<times> 'f) list"
  plugin_metrics :: "(bytes \<times> 'q) list"

text \<open>
  What the processor calls and does not define. \<^verbatim>\<open>time_function\<close> is supplied by the
  caller; it is given here by the reading it returns at its \<open>n\<close>-th call. The class
  \<^verbatim>\<open>MeterMetricReporter\<close> and the plug-ins are imported, so their methods are
  parameters: the constructor and \<^verbatim>\<open>mark\<close> and \<^verbatim>\<open>report\<close> of a meter,
  \<^verbatim>\<open>name\<close> and \<^verbatim>\<open>build_metric\<close> of a factory, \<^verbatim>\<open>process\<close> and
  \<^verbatim>\<open>flush\<close> of a plug-in metric. They are taken to return.
\<close>

record ('m, 'f, 'q) externals =
  time_function :: "nat \<Rightarrow> rat"
  meter_new :: "bytes \<Rightarrow> 'm"
  meter_mark :: "'m \<Rightarrow> rat \<Rightarrow> 'm"
  meter_report :: "'m \<Rightarrow> int \<Rightarrow> emission list \<times> 'm"
  factory_name :: "'f \<Rightarrow> bytes"
  build_metric :: "'f \<Rightarrow> bytes \<Rightarrow> bytes \<Rightarrow> 'q"
  metric_process :: "'q \<Rightarrow> bytes list \<Rightarrow> 'q"
  metric_flush :: "'q \<Rightarrow> int \<Rightarrow> int \<Rightarrow> emission list \<times> 'q"

definition stats_prefix :: bytes where "stats_prefix = ''stats.''"
definition internal_metrics_prefix :: bytes where "internal_metrics_prefix = ''statsd.''"
definition count_prefix :: bytes where "count_prefix = ''stats_counts.''"
definition timer_prefix :: bytes where "timer_prefix = stats_prefix @ ''timers.''"
definition gauge_prefix :: bytes where "gauge_prefix = stats_prefix @ ''gauge.''"

text \<open>\<^verbatim>\<open>MessageProcessor.__init__\<close>, the plug-ins given as pairs of metric type and factory.\<close>

definition init :: "(bytes \<times> 'f) list \<Rightarrow> ('m, 'f, 'q) processor" where
  "init ps =
     \<lparr>clock = 0, bad_lines = [], process_timings = [], by_type = [],
      last_flush_duration = 0, last_process_duration = 0,
      timer_metrics = [], counter_metrics = [], gauge_metrics = [], meter_metrics = [],
      plugins = foldl (\<lambda>d (metric_type, plugin). AList.update metric_type plugin d) [] ps,
      plugin_metrics = []\<rparr>"

definition read_clock ::
  "('m, 'f, 'q) externals \<Rightarrow> ('m, 'f, 'q) processor \<Rightarrow> rat \<times> ('m, 'f, 'q) processor" where
  "read_clock ext s = (time_function ext (clock s), s\<lparr>clock := Suc (clock s)\<rparr>)"

text \<open>\<^verbatim>\<open>fail\<close>: the message is logged, nothing else changes.\<close>

definition fail :: "bytes \<Rightarrow> ('m, 'f, 'q) processor \<Rightarrow> ('m, 'f, 'q) processor" where
  "fail message s = s\<lparr>bad_lines := bad_lines s @ [message]\<rparr>"

subsection \<open>Ingest\<close>

definition compose_timer_metric ::
  "bytes \<Rightarrow> rat \<Rightarrow> ('m, 'f, 'q) processor \<Rightarrow> ('m, 'f, 'q) processor" where
  "compose_timer_metric key duration s =
     (let tm = (case map_of (timer_metrics s) key of
                  None \<Rightarrow> AList.update key [] (timer_metrics s) | Some _ \<Rightarrow> timer_metrics s);
          old = (case map_of tm key of None \<Rightarrow> [] | Some ds \<Rightarrow> ds)
      in s\<lparr>timer_metrics := AList.update key (old @ [duration]) tm\<rparr>)"

definition process_timer_metric ::
  "bytes \<Rightarrow> bytes \<Rightarrow> bytes \<Rightarrow> ('m, 'f, 'q) processor \<Rightarrow> ('m, 'f, 'q) processor" where
  "process_timer_metric key duration message s =
     (case py_float duration of
        None \<Rightarrow> fail message s
      | Some duration \<Rightarrow> compose_timer_metric key duration s)"

text \<open>The slot is created before \<^verbatim>\<open>float(rate)\<close> and the division are evaluated, and
  neither is guarded.\<close>

definition compose_counter_metric ::
  "bytes \<Rightarrow> rat \<Rightarrow> py_arg \<Rightarrow> ('m, 'f, 'q) processor \<Rightarrow> py_error + ('m, 'f, 'q) processor" where
  "compose_counter_metric key val rate s =
     (let cm = (case map_of (counter_metrics s) key of
                  None \<Rightarrow> AList.update key 0 (counter_metrics s) | Some _ \<Rightarrow> counter_metrics s);
          old = (case map_of cm key of None \<Rightarrow> 0 | Some c \<Rightarrow> c)
      in case to_float rate of
           None \<Rightarrow> Inl ValueError
         | Some r \<Rightarrow>
             if r = 0 then Inl ZeroDivisionError
             else Inr (s\<lparr>counter_metrics := AList.update key (old + val * (1 / r)) cm\<rparr>))"

definition process_counter_metric ::
  "bytes \<Rightarrow> bytes list \<Rightarrow> bytes \<Rightarrow> ('m, 'f, 'q) processor \<Rightarrow> py_error + ('m, 'f, 'q) processor" where
  "process_counter_metric key composite message s =
     bind_res (py_index composite 0) (\<lambda>c0.
       case py_float c0 of
         None \<Rightarrow> Inr (fail message s)
       | Some val \<Rightarrow>
           if length composite = 3 then
             (case RATE_match (composite ! 2) of
                None \<Rightarrow> Inr (fail message s)
              | Some rate \<Rightarrow> compose_counter_metric key val (PyBytes rate) s)
           else compose_counter_metric key val (PyInt 1) s)"

definition compose_gauge_metric ::
  "bytes \<Rightarrow> rat \<Rightarrow> ('m, 'f, 'q) processor \<Rightarrow> ('m, 'f, 'q) processor" where
  "compose_gauge_metric key val s = s\<lparr>gauge_metrics := gauge_metrics s @ [(val, key)]\<rparr>"

text \<open>
  When \<^verbatim>\<open>float\<close> raises, the handler calls \<^verbatim>\<open>fail\<close> and does not return; the next
  statement reads the local \<^verbatim>\<open>value\<close>, which was never bound, and that raises
  \<^verbatim>\<open>UnboundLocalError\<close>.
\<close>

definition process_gauge_metric ::
  "bytes \<Rightarrow> bytes \<Rightarrow> bytes \<Rightarrow> ('m, 'f, 'q) processor \<Rightarrow> py_error + ('m, 'f, 'q) processor" where
  "process_gauge_metric key composite message s =
     (let vals = split_on (CHR '':'') composite
      in if \<not> length vals = 1 then Inr (fail message s)
         else (case py_float (vals ! 0) of
                 None \<Rightarrow> bind_res (Inr (fail message s)) (\<lambda>s. Inl UnboundLocalError)
               | Some val \<Rightarrow> Inr (compose_gauge_metric key val s)))"

definition compose_meter_metric ::
  "('m, 'f, 'q) externals \<Rightarrow> bytes \<Rightarrow> rat \<Rightarrow> ('m, 'f, 'q) processor \<Rightarrow> ('m, 'f, 'q) processor" where
  "compose_meter_metric ext key val s =
     (let mm = (case map_of (meter_metrics s) key of
                  None \<Rightarrow> AList.update key (meter_new ext key) (meter_metrics s)
                | Some _ \<Rightarrow> meter_metrics s)
      in s\<lparr>meter_metrics := map (\<lambda>(k, m). if k = key then (k, meter_mark ext m val) else (k, m)) mm\<rparr>)"

text \<open>Same shape as the gauge; the diagnostic \<^verbatim>\<open>print\<close> is left out.\<close>

definition process_meter_metric ::
  "('m, 'f, 'q) externals \<Rightarrow> bytes \<Rightarrow> bytes \<Rightarrow> bytes \<Rightarrow> ('m, 'f, 'q) processor
     \<Rightarrow> py_error + ('m, 'f, 'q) processor" where
  "process_meter_metric ext key composite message s =
     (let vals = split_on (CHR '':'') composite
      in if \<not> length vals = 1 then Inr (fail message s)
         else (case py_float (vals ! 0) of
                 None \<Rightarrow> bind_res (Inr (fail message s)) (\<lambda>s. Inl UnboundLocalError)
               | Some val \<Rightarrow> Inr (compose_meter_metric ext key val s)))"

definition get_message_prefix :: "bytes \<Rightarrow> bytes" where
  "get_message_prefix kind = ''stats.'' @ kind"

definition process_plugin_metric ::
  "('m, 'f, 'q) externals \<Rightarrow> bytes \<Rightarrow> bytes \<Rightarrow> bytes list \<Rightarrow> bytes \<Rightarrow> ('m, 'f, 'q) processor
     \<Rightarrow> py_error + ('m, 'f, 'q) processor" where
  "process_plugin_metric ext metric_type key items message s =
     (case map_of (plugins s) metric_type of
        None \<Rightarrow> Inl KeyError
      | Some factory \<Rightarrow>
          let pm = (case map_of (plugin_metrics s) key of
                      None \<Rightarrow> AList.update key
                        (build_metric ext factory (get_message_prefix (factory_name ext factory)) key)
                        (plugin_metrics s)
                    | Some _ \<Rightarrow> plugin_metrics s)
          in Inr (s\<lparr>plugin_metrics :=
                map (\<lambda>(k, q). if k = key then (k, metric_process ext q items) else (k, q)) pm\<rparr>))"

text \<open>An unknown metric type returns from \<^verbatim>\<open>fail\<close> at once; every other branch, also
  one that has called \<^verbatim>\<open>fail\<close> itself, goes on to the ingest accounting. The
  parameter \<open>flds\<close> is the source's \<^verbatim>\<open>fields\<close>, and \<open>val\<close> stands for
  \<^verbatim>\<open>value\<close> throughout.\<close>

definition process_message ::
  "('m, 'f, 'q) externals \<Rightarrow> bytes \<Rightarrow> bytes \<Rightarrow> bytes \<Rightarrow> bytes list \<Rightarrow> ('m, 'f, 'q) processor
     \<Rightarrow> py_error + ('m, 'f, 'q) processor" where
  "process_message ext message metric_type key flds s0 =
     (case read_clock ext s0 of (start, s) \<Rightarrow>
        let dispatched =
          (if metric_type = ''c'' then Some (process_counter_metric key flds message s)
           else if metric_type = ''ms'' then
             Some (bind_res (py_index flds 0) (\<lambda>f0. Inr (process_timer_metric key f0 message s)))
           else if metric_type = ''g'' then
             Some (bind_res (py_index flds 0) (\<lambda>f0. process_gauge_metric key f0 message s))
           else if metric_type = ''m'' then
             Some (bind_res (py_index flds 0) (\<lambda>f0. process_meter_metric ext key f0 message s))
           else if metric_type \<in> fst ` set (plugins s) then
             Some (process_plugin_metric ext metric_type key flds message s)
           else None)
        in (case dispatched of
             None \<Rightarrow> Inr (fail message s)
           | Some res \<Rightarrow>
               bind_res res (\<lambda>s.
                 let pt = (case map_of (process_timings s) metric_type of
                             None \<Rightarrow> AList.update metric_type 0 (process_timings s)
                           | Some _ \<Rightarrow> process_timings s);
                     old = (case map_of pt metric_type of None \<Rightarrow> 0 | Some d \<Rightarrow> d)
                 in case read_clock ext s of (now, s) \<Rightarrow>
                   let s = s\<lparr>process_timings := AList.update metric_type (old + (now - start)) pt\<rparr>;
                       bt = (case map_of (by_type s) metric_type of
                               None \<Rightarrow> AList.update metric_type 0 (by_type s)
                             | Some _ \<Rightarrow> by_type s);
                       n = (case map_of bt metric_type of None \<Rightarrow> 0 | Some n \<Rightarrow> n)
                   in Inr (s\<lparr>by_type := AList.update metric_type (n + 1) bt\<rparr>))))"

text \<open>\<^verbatim>\<open>BaseMessageProcessor.process\<close>. The message holds a colon when the split is
  reached, so \<^verbatim>\<open>split(b":", 1)\<close> gives the text before the first colon and the text
  after it.\<close>

definition process ::
  "('m, 'f, 'q) externals \<Rightarrow> bytes \<Rightarrow> ('m, 'f, 'q) processor \<Rightarrow> py_error + ('m, 'f, 'q) processor" where
  "process ext message s =
     (if CHR '':'' \<notin> set message then Inr (fail message s)
      else
        let stripped = strip message;
            key = takeWhile (\<lambda>c. c \<noteq> CHR '':'') stripped;
            data = drop 1 (dropWhile (\<lambda>c. c \<noteq> CHR '':'') stripped)
        in if CHR ''|'' \<notin> set data then Inr (fail message s)
           else
             let flds = split_on (CHR ''|'') data
             in if length flds < 2 \<or> length flds > 3 then Inr (fail message s)
                else
                  let key = normalize_key key; metric_type = flds ! 1
                  in process_message ext message metric_type key flds s)"

subsection \<open>Flush\<close>

text \<open>
  Each \<^verbatim>\<open>flush_*_metrics\<close> generator is given by the list of groups it yields when it
  is consumed to the end, with the state it leaves. The iteration is over a snapshot
  (\<^verbatim>\<open>list(d.items())\<close>); the dictionary is written as it proceeds.
\<close>

fun flush_counter_loop ::
  "(bytes \<times> rat) list \<Rightarrow> int \<Rightarrow> int \<Rightarrow> (bytes \<times> rat) list
     \<Rightarrow> py_error + (emission list list \<times> (bytes \<times> rat) list)" where
  "flush_counter_loop [] interval timestamp cm = Inr ([], cm)"
| "flush_counter_loop ((key, count) # items) interval timestamp cm =
     (let cm = AList.update key 0 cm
      in if interval = 0 then Inl ZeroDivisionError
         else
           let val = of_int (py_int (count / of_int interval))
           in bind_res (flush_counter_loop items interval timestamp cm) (\<lambda>(groups, cm).
                Inr ([(stats_prefix @ key, val, timestamp),
                      (count_prefix @ key, count, timestamp)] # groups, cm)))"

definition flush_counter_metrics ::
  "int \<Rightarrow> int \<Rightarrow> ('m, 'f, 'q) processor
     \<Rightarrow> py_error + (emission list list \<times> ('m, 'f, 'q) processor)" where
  "flush_counter_metrics interval timestamp s =
     bind_res (flush_counter_loop (counter_metrics s) interval timestamp (counter_metrics s))
       (\<lambda>(groups, cm). Inr (groups, s\<lparr>counter_metrics := cm\<rparr>))"

text \<open>
  The statistics of one non-empty bucket, the body of the loop of
  \<^verbatim>\<open>flush_timer_metrics\<close>: \<open>(mean, upper, threshold_upper, lower, count)\<close>.
  \<^verbatim>\<open>timers[-1]\<close> raises \<^verbatim>\<open>IndexError\<close> when the slice is empty; otherwise
  \<open>index\<close> is not zero.
\<close>

definition timer_items ::
  "int \<Rightarrow> rat list \<Rightarrow> py_error + (rat \<times> rat \<times> rat \<times> rat \<times> nat)" where
  "timer_items percent timers0 =
     (let threshold_value = (100 - of_int percent) / 100;
          timers = sort timers0;
          lower = hd timers;
          upper = last timers;
          count = length timers
      in if count > 1 then
           (let index = int count - py_int (py_round (threshold_value * of_nat count));
                timers = py_slice_to timers index
            in if timers = [] then Inl IndexError
               else Inr (of_int (py_int (sum_list timers / of_int index)),
                         upper, last timers, lower, count))
         else Inr (lower, upper, upper, lower, count))"

text \<open>The five names of a bucket differ, so \<^verbatim>\<open>sorted\<close> orders the triples by name:
  \<^verbatim>\<open>.count\<close>, \<^verbatim>\<open>.lower\<close>, \<^verbatim>\<open>.mean\<close>, \<^verbatim>\<open>.upper\<close>, \<^verbatim>\<open>.upper_N\<close>.\<close>

fun flush_timer_loop ::
  "(bytes \<times> rat list) list \<Rightarrow> int \<Rightarrow> int \<Rightarrow> (bytes \<times> rat list) list
     \<Rightarrow> py_error + (emission list list \<times> (bytes \<times> rat list) list)" where
  "flush_timer_loop [] percent timestamp tm = Inr ([], tm)"
| "flush_timer_loop ((key, timers) # items) percent timestamp tm =
     (if length timers > 0 then
        (let tm = AList.update key [] tm
         in bind_res (timer_items percent timers) (\<lambda>(mean, upper, threshold_upper, lower, count).
            bind_res (flush_timer_loop items percent timestamp tm) (\<lambda>(groups, tm).
              Inr ([(timer_prefix @ key @ ''.count'', of_nat count, timestamp),
                    (timer_prefix @ key @ ''.lower'', lower, timestamp),
                    (timer_prefix @ key @ ''.mean'', mean, timestamp),
                    (timer_prefix @ key @ ''.upper'', upper, timestamp),
                    (timer_prefix @ key @ ''.upper_'' @ format_d percent, threshold_upper,
                     timestamp)] # groups, tm))))
      else flush_timer_loop items percent timestamp tm)"

definition flush_timer_metrics ::
  "int \<Rightarrow> int \<Rightarrow> ('m, 'f, 'q) processor
     \<Rightarrow> py_error + (emission list list \<times> ('m, 'f, 'q) processor)" where
  "flush_timer_metrics percent timestamp s =
     bind_res (flush_timer_loop (timer_metrics s) percent timestamp (timer_metrics s))
       (\<lambda>(groups, tm). Inr (groups, s\<lparr>timer_metrics := tm\<rparr>))"

text \<open>The gauge sequence is read and not written.\<close>

definition flush_gauge_metrics :: "int \<Rightarrow> ('m, 'f, 'q) processor \<Rightarrow> emission list list" where
  "flush_gauge_metrics timestamp s =
     map (\<lambda>metric. [(gauge_prefix @ snd metric @ ''.value'', fst metric, timestamp)])
       (gauge_metrics s)"

definition flush_meter_metrics ::
  "('m, 'f, 'q) externals \<Rightarrow> int \<Rightarrow> ('m, 'f, 'q) processor
     \<Rightarrow> emission list list \<times> ('m, 'f, 'q) processor" where
  "flush_meter_metrics ext timestamp s =
     (map (\<lambda>(k, metric). fst (meter_report ext metric timestamp)) (meter_metrics s),
      s\<lparr>meter_metrics :=
          map (\<lambda>(k, metric). (k, snd (meter_report ext metric timestamp))) (meter_metrics s)\<rparr>)"

definition flush_plugin_metrics ::
  "('m, 'f, 'q) externals \<Rightarrow> int \<Rightarrow> int \<Rightarrow> ('m, 'f, 'q) processor
     \<Rightarrow> emission list list \<times> ('m, 'f, 'q) processor" where
  "flush_plugin_metrics ext interval timestamp s =
     (map (\<lambda>(k, metric). fst (metric_flush ext metric interval timestamp)) (plugin_metrics s),
      s\<lparr>plugin_metrics :=
          map (\<lambda>(k, metric). (k, snd (metric_flush ext metric interval timestamp)))
            (plugin_metrics s)\<rparr>)"

text \<open>The groups of \<^verbatim>\<open>receive.*\<close>; \<^verbatim>\<open>self.by_type[metric_type]\<close> raises
  \<^verbatim>\<open>KeyError\<close> on a missing key. The informational \<^verbatim>\<open>log.msg\<close> calls of the
  summary are left out.\<close>

fun receive_groups ::
  "(bytes \<times> rat) list \<Rightarrow> (bytes \<times> nat) list \<Rightarrow> int \<Rightarrow> py_error + emission list list" where
  "receive_groups [] bt timestamp = Inr []"
| "receive_groups ((metric_type, duration) # items) bt timestamp =
     (case map_of bt metric_type of
        None \<Rightarrow> Inl KeyError
      | Some n \<Rightarrow>
          bind_res (receive_groups items bt timestamp) (\<lambda>groups.
            Inr ([(internal_metrics_prefix @ ''receive.'' @ metric_type @ ''.count'',
                   of_nat n, timestamp),
                  (internal_metrics_prefix @ ''receive.'' @ metric_type @ ''.duration'',
                   duration * 1000, timestamp)] # groups)))"

definition flush_metrics_summary ::
  "nat \<Rightarrow> (bytes \<times> nat \<times> rat) list \<Rightarrow> int \<Rightarrow> ('m, 'f, 'q) processor
     \<Rightarrow> py_error + (emission list list \<times> ('m, 'f, 'q) processor)" where
  "flush_metrics_summary num_stats per_metric timestamp s =
     (let first = [(internal_metrics_prefix @ ''numStats'', of_nat num_stats, timestamp)];
          flushed =
            map (\<lambda>(name, val, duration).
                   [(internal_metrics_prefix @ ''flush.'' @ name @ ''.count'', of_nat val, timestamp),
                    (internal_metrics_prefix @ ''flush.'' @ name @ ''.duration'', duration * 1000,
                     timestamp)])
              per_metric;
          s = s\<lparr>last_flush_duration := foldl (\<lambda>acc (name, val, duration). acc + duration) 0 per_metric\<rparr>
      in bind_res (receive_groups (process_timings s) (by_type s) timestamp) (\<lambda>received.
           Inr (first # flushed @ received,
                s\<lparr>last_process_duration :=
                     foldl (\<lambda>acc (metric_type, duration). acc + duration) 0 (process_timings s),
                   process_timings := [], by_type := []\<rparr>)))"

text \<open>
  \<^verbatim>\<open>flush\<close>, consumed to the end: the metrics it yields, in order, and the state it
  leaves. \<^verbatim>\<open>interval / 1000\<close> divides two integers.
\<close>

definition flush ::
  "('m, 'f, 'q) externals \<Rightarrow> int \<Rightarrow> int \<Rightarrow> ('m, 'f, 'q) processor
     \<Rightarrow> py_error + (emission list \<times> ('m, 'f, 'q) processor)" where
  "flush ext interval0 percent s0 =
     (let interval = interval0 div 1000 in
      case read_clock ext s0 of (t, s) \<Rightarrow>
      let timestamp = py_int t in
      case read_clock ext s of (start, s) \<Rightarrow>
      bind_res (flush_counter_metrics interval timestamp s) (\<lambda>(counters, s).
      case read_clock ext s of (stop, s) \<Rightarrow>
      let num_stats = 0 + length counters;
          per_metric = [(''counter'', length counters, stop - start)] in
      case read_clock ext s of (start, s) \<Rightarrow>
      bind_res (flush_timer_metrics percent timestamp s) (\<lambda>(timers, s).
      case read_clock ext s of (stop, s) \<Rightarrow>
      let num_stats = num_stats + length timers;
          per_metric = per_metric @ [(''timer'', length timers, stop - start)] in
      case read_clock ext s of (start, s) \<Rightarrow>
      let gauges = flush_gauge_metrics timestamp s in
      case read_clock ext s of (stop, s) \<Rightarrow>
      let num_stats = num_stats + length gauges;
          per_metric = per_metric @ [(''gauge'', length gauges, stop - start)] in
      case read_clock ext s of (start, s) \<Rightarrow>
      case flush_meter_metrics ext timestamp s of (meters, s) \<Rightarrow>
      case read_clock ext s of (stop, s) \<Rightarrow>
      let num_stats = num_stats + length meters;
          per_metric = per_metric @ [(''meter'', length meters, stop - start)] in
      case read_clock ext s of (start, s) \<Rightarrow>
      case flush_plugin_metrics ext interval timestamp s of (plugs, s) \<Rightarrow>
      case read_clock ext s of (stop, s) \<Rightarrow>
      let num_stats = num_stats + length plugs;
          per_metric = per_metric @ [(''plugin'', length plugs, stop - start)] in
      bind_res (flush_metrics_summary num_stats per_metric timestamp s) (\<lambda>(summary, s).
        Inr (concat (counters @ timers @ gauges @ meters @ plugs @ summary), s)))))"

subsection \<open>The sender: \<^verbatim>\<open>Metrics.flush\<close>\<close>



subsection \<open>Notions used to state the properties\<close>

text \<open>Collaborators for the concrete runs: the clock frozen at 1000, a meter that adds up
  its marks and reports nothing, plug-in metrics without content.\<close>

definition frozen_externals :: "(rat, bytes, unit) externals" where
  "frozen_externals =
     \<lparr>time_function = (\<lambda>n. 1000), meter_new = (\<lambda>key. 0), meter_mark = (\<lambda>m v. m + v),
      meter_report = (\<lambda>m timestamp. ([], m)), factory_name = (\<lambda>f. f),
      build_metric = (\<lambda>f prefix key. ()), metric_process = (\<lambda>q items. q),
      metric_flush = (\<lambda>q interval timestamp. ([], q))\<rparr>"









text \<open>Consecutive flushes, each with its interval and percent, nothing ingested in
  between: what each flush emits, and the state left.\<close>

fun flushes ::
  "('m, 'f, 'q) externals \<Rightarrow> (int \<times> int) list \<Rightarrow> ('m, 'f, 'q) processor
     \<Rightarrow> py_error + (emission list list \<times> ('m, 'f, 'q) processor)" where
  "flushes ext [] s = Inr ([], s)"
| "flushes ext ((interval, percent) # rest) s =
     bind_res (flush ext interval percent s) (\<lambda>(out, s).
       bind_res (flushes ext rest s) (\<lambda>(outs, s). Inr (out # outs, s)))"



section \<open>Properties\<close>

subsection \<open>Key normalisation\<close>








subsection \<open>Results and exceptions\<close>

lemma bind_res_Inr_iff: "bind_res m f = Inr y \<longleftrightarrow> (\<exists>x. m = Inr x \<and> f x = Inr y)"
  by (cases m) (simp_all add: bind_res_def)

lemma bind_res_Inl_iff:
  "bind_res m f = Inl e \<longleftrightarrow> m = Inl e \<or> (\<exists>x. m = Inr x \<and> f x = Inl e)"
  by (cases m) (simp_all add: bind_res_def)

subsection \<open>Unparseable gauge and meter values\<close>

text \<open>
  Claim C1, at the inputs where the code departs from it. The claim is that
  \<^verbatim>\<open>process\<close> never raises to its caller, in particular not on a gauge or meter payload
  whose value is not a float. On the payloads \<^verbatim>\<open>g:abc|g\<close> and \<^verbatim>\<open>m:abc|m\<close>,
  whatever the state and the collaborators, \<^verbatim>\<open>process\<close> raises
  \<^verbatim>\<open>UnboundLocalError\<close>.
\<close>

theorem unparseable_gauge_or_meter_raises:
  "process ext ''g:abc|g'' s = Inl UnboundLocalError \<and>
   process ext ''m:abc|m'' s = Inl UnboundLocalError"
  by (simp add: process_def strip_def is_space_def normalize_key_def is_safe_def is_digit_def
      is_slash_def process_message_def read_clock_def bind_res_def py_index_def
      process_gauge_metric_def process_meter_metric_def py_float_def split_sign_def)

subsection \<open>The interval of a flush\<close>



subsection \<open>Packets of the sender\<close>









subsection \<open>Timer statistics\<close>


























subsection \<open>Counters\<close>










subsection \<open>The sampling rate of a counter\<close>














subsection \<open>The stream of a flush: self-telemetry and gauges\<close>


lemma flush_counter_metrics_gauges:
  "flush_counter_metrics interval timestamp s = Inr (groups, s') \<Longrightarrow>
     gauge_metrics s' = gauge_metrics s"
  by (auto simp: flush_counter_metrics_def bind_res_Inr_iff)

lemma flush_timer_metrics_gauges:
  "flush_timer_metrics percent timestamp s = Inr (groups, s') \<Longrightarrow>
     gauge_metrics s' = gauge_metrics s"
  by (auto simp: flush_timer_metrics_def bind_res_Inr_iff)

lemma flush_meter_metrics_gauges:
  "flush_meter_metrics ext timestamp s = (groups, s') \<Longrightarrow> gauge_metrics s' = gauge_metrics s"
  by (auto simp: flush_meter_metrics_def)

lemma flush_plugin_metrics_gauges:
  "flush_plugin_metrics ext interval timestamp s = (groups, s') \<Longrightarrow>
     gauge_metrics s' = gauge_metrics s"
  by (auto simp: flush_plugin_metrics_def)

lemma flush_metrics_summary_Inr:
  assumes "flush_metrics_summary num_stats per_metric timestamp s = Inr (summary, s')"
  shows "gauge_metrics s' = gauge_metrics s \<and>
    (\<exists>received. summary =
       [(internal_metrics_prefix @ ''numStats'', of_nat num_stats, timestamp)] #
       map (\<lambda>(name, val, duration).
              [(internal_metrics_prefix @ ''flush.'' @ name @ ''.count'', of_nat val, timestamp),
               (internal_metrics_prefix @ ''flush.'' @ name @ ''.duration'', duration * 1000,
                timestamp)]) per_metric @ received)"
  using assms by (auto simp: flush_metrics_summary_def Let_def bind_res_Inr_iff)

lemma concat_flush_gauge_metrics:
  "concat (flush_gauge_metrics timestamp s) =
     map (\<lambda>(val, key). (gauge_prefix @ key @ ''.value'', val, timestamp)) (gauge_metrics s)"
  by (induction "gauge_metrics s" arbitrary: s) (auto simp: flush_gauge_metrics_def case_prod_unfold)

lemma flush_shape:
  assumes "flush ext interval0 percent s0 = Inr (out, s')"
  shows "gauge_metrics s' = gauge_metrics s0 \<and>
    (\<exists>counters timers meters plugs received timestamp d1 d2 d3 d4 d5.
       out = concat counters @ concat timers @
         map (\<lambda>(val, key). (gauge_prefix @ key @ ''.value'', val, timestamp)) (gauge_metrics s0) @
         concat meters @ concat plugs @
         [(''statsd.numStats'',
           of_nat (length counters + length timers + length (gauge_metrics s0) + length meters
             + length plugs), timestamp),
          (''statsd.flush.counter.count'', of_nat (length counters), timestamp),
          (''statsd.flush.counter.duration'', d1, timestamp),
          (''statsd.flush.timer.count'', of_nat (length timers), timestamp),
          (''statsd.flush.timer.duration'', d2, timestamp),
          (''statsd.flush.gauge.count'', of_nat (length (gauge_metrics s0)), timestamp),
          (''statsd.flush.gauge.duration'', d3, timestamp),
          (''statsd.flush.meter.count'', of_nat (length meters), timestamp),
          (''statsd.flush.meter.duration'', d4, timestamp),
          (''statsd.flush.plugin.count'', of_nat (length plugs), timestamp),
          (''statsd.flush.plugin.duration'', d5, timestamp)] @ concat received)"
  using assms
  apply (clarsimp simp: flush_def Let_def read_clock_def bind_res_Inr_iff case_prod_beta)
  apply (drule flush_metrics_summary_Inr)
  apply (clarsimp simp: internal_metrics_prefix_def concat_flush_gauge_metrics)
  apply (frule flush_counter_metrics_gauges)
  apply (frule flush_timer_metrics_gauges)
  apply (simp add: flush_meter_metrics_def flush_plugin_metrics_def flush_gauge_metrics_def)
  subgoal for counters sa timers sb received
    apply (rule exI [where x = counters])
    apply (rule exI [where x = timers])
    apply (rule exI [where x = "map (\<lambda>(k, metric).
             fst (meter_report ext metric (py_int (time_function ext (clock s0)))))
             (meter_metrics sb)"])
    apply (rule exI [where x = "map (\<lambda>(k, metric).
             fst (metric_flush ext metric (interval0 div 1000)
               (py_int (time_function ext (clock s0))))) (plugin_metrics sb)"])
    apply (rule exI [where x = received])
    apply (rule exI [where x = "py_int (time_function ext (clock s0))"])
    apply (rule exI [where x = "time_function ext (clock sa) * 1000
             - time_function ext (Suc (clock s0)) * 1000"])
    apply (rule exI [where x = "time_function ext (clock sb) * 1000
             - time_function ext (Suc (clock sa)) * 1000"])
    apply (rule exI [where x = "time_function ext (Suc (Suc (clock sb))) * 1000
             - time_function ext (Suc (clock sb)) * 1000"])
    apply (rule exI [where x = "time_function ext (Suc (Suc (Suc (Suc (clock sb))))) * 1000
             - time_function ext (Suc (Suc (Suc (clock sb)))) * 1000"])
    apply (rule exI [where x = "time_function ext (Suc (Suc (Suc (Suc (Suc (Suc (clock sb)))))))
             * 1000 - time_function ext (Suc (Suc (Suc (Suc (Suc (clock sb)))))) * 1000"])
    apply simp
    done
  done


text \<open>
  Claim C7. In every flush consumed to the end, the self-telemetry reads: \<^verbatim>\<open>statsd.numStats\<close>
  with a value that is the sum of the values of the five \<^verbatim>\<open>statsd.flush.<k>.count\<close>
  emitted right after it, for counter, timer, gauge, meter and plugin.
\<close>

theorem flush_numStats:
  assumes "flush ext interval percent s = Inr (out, s')"
  shows "\<exists>body c t g m p timestamp d1 d2 d3 d4 d5 rest.
     out = body @
       [(''statsd.numStats'', of_nat (c + t + g + m + p), timestamp),
        (''statsd.flush.counter.count'', of_nat c, timestamp),
        (''statsd.flush.counter.duration'', d1, timestamp),
        (''statsd.flush.timer.count'', of_nat t, timestamp),
        (''statsd.flush.timer.duration'', d2, timestamp),
        (''statsd.flush.gauge.count'', of_nat g, timestamp),
        (''statsd.flush.gauge.duration'', d3, timestamp),
        (''statsd.flush.meter.count'', of_nat m, timestamp),
        (''statsd.flush.meter.duration'', d4, timestamp),
        (''statsd.flush.plugin.count'', of_nat p, timestamp),
        (''statsd.flush.plugin.duration'', d5, timestamp)] @ rest"
proof -
  from flush_shape [OF assms] obtain counters timers meters plugs received timestamp
    and d1 d2 d3 d4 d5 :: rat
    where out: "out = concat counters @ concat timers @
         map (\<lambda>(val, key). (gauge_prefix @ key @ ''.value'', val, timestamp)) (gauge_metrics s) @
         concat meters @ concat plugs @
         [(''statsd.numStats'',
           of_nat (length counters + length timers + length (gauge_metrics s) + length meters
             + length plugs), timestamp),
          (''statsd.flush.counter.count'', of_nat (length counters), timestamp),
          (''statsd.flush.counter.duration'', d1, timestamp),
          (''statsd.flush.timer.count'', of_nat (length timers), timestamp),
          (''statsd.flush.timer.duration'', d2, timestamp),
          (''statsd.flush.gauge.count'', of_nat (length (gauge_metrics s)), timestamp),
          (''statsd.flush.gauge.duration'', d3, timestamp),
          (''statsd.flush.meter.count'', of_nat (length meters), timestamp),
          (''statsd.flush.meter.duration'', d4, timestamp),
          (''statsd.flush.plugin.count'', of_nat (length plugs), timestamp),
          (''statsd.flush.plugin.duration'', d5, timestamp)] @ concat received"
    by blast
  have "out = (concat counters @ concat timers @
         map (\<lambda>(val, key). (gauge_prefix @ key @ ''.value'', val, timestamp)) (gauge_metrics s) @
         concat meters @ concat plugs) @
         [(''statsd.numStats'',
           of_nat (length counters + length timers + length (gauge_metrics s) + length meters
             + length plugs), timestamp),
          (''statsd.flush.counter.count'', of_nat (length counters), timestamp),
          (''statsd.flush.counter.duration'', d1, timestamp),
          (''statsd.flush.timer.count'', of_nat (length timers), timestamp),
          (''statsd.flush.timer.duration'', d2, timestamp),
          (''statsd.flush.gauge.count'', of_nat (length (gauge_metrics s)), timestamp),
          (''statsd.flush.gauge.duration'', d3, timestamp),
          (''statsd.flush.meter.count'', of_nat (length meters), timestamp),
          (''statsd.flush.meter.duration'', d4, timestamp),
          (''statsd.flush.plugin.count'', of_nat (length plugs), timestamp),
          (''statsd.flush.plugin.duration'', d5, timestamp)] @ concat received"
    unfolding out by simp
  then show ?thesis
    by (intro exI)
qed

theorem flush_numStats_witness:
  "flush frozen_externals 10000 90
      ((init [])\<lparr>counter_metrics := [(''foo'', 3)], gauge_metrics := [(42, ''g'')]\<rparr>)
     = Inr ([(''stats.foo'', 0, 1000), (''stats_counts.foo'', 3, 1000),
             (''stats.gauge.g.value'', 42, 1000), (''statsd.numStats'', 2, 1000),
             (''statsd.flush.counter.count'', 1, 1000), (''statsd.flush.counter.duration'', 0, 1000),
             (''statsd.flush.timer.count'', 0, 1000), (''statsd.flush.timer.duration'', 0, 1000),
             (''statsd.flush.gauge.count'', 1, 1000), (''statsd.flush.gauge.duration'', 0, 1000),
             (''statsd.flush.meter.count'', 0, 1000), (''statsd.flush.meter.duration'', 0, 1000),
             (''statsd.flush.plugin.count'', 0, 1000), (''statsd.flush.plugin.duration'', 0, 1000)],
            (init [])\<lparr>clock := 11, counter_metrics := [(''foo'', 0)], gauge_metrics := [(42, ''g'')]\<rparr>) \<and>
   (\<exists>body c t g m p timestamp d1 d2 d3 d4 d5 rest.
     ([(''stats.foo'', 0, 1000), (''stats_counts.foo'', 3, 1000),
       (''stats.gauge.g.value'', 42, 1000), (''statsd.numStats'', 2, 1000),
       (''statsd.flush.counter.count'', 1, 1000), (''statsd.flush.counter.duration'', 0, 1000),
       (''statsd.flush.timer.count'', 0, 1000), (''statsd.flush.timer.duration'', 0, 1000),
       (''statsd.flush.gauge.count'', 1, 1000), (''statsd.flush.gauge.duration'', 0, 1000),
       (''statsd.flush.meter.count'', 0, 1000), (''statsd.flush.meter.duration'', 0, 1000),
       (''statsd.flush.plugin.count'', 0, 1000), (''statsd.flush.plugin.duration'', 0, 1000)]
        :: emission list)
     = body @
       [(''statsd.numStats'', of_nat (c + t + g + m + p), timestamp),
        (''statsd.flush.counter.count'', of_nat c, timestamp),
        (''statsd.flush.counter.duration'', d1, timestamp),
        (''statsd.flush.timer.count'', of_nat t, timestamp),
        (''statsd.flush.timer.duration'', d2, timestamp),
        (''statsd.flush.gauge.count'', of_nat g, timestamp),
        (''statsd.flush.gauge.duration'', d3, timestamp),
        (''statsd.flush.meter.count'', of_nat m, timestamp),
        (''statsd.flush.meter.duration'', d4, timestamp),
        (''statsd.flush.plugin.count'', of_nat p, timestamp),
        (''statsd.flush.plugin.duration'', d5, timestamp)] @ rest)"
proof -
  have h: "flush frozen_externals 10000 90
      ((init [])\<lparr>counter_metrics := [(''foo'', 3)], gauge_metrics := [(42, ''g'')]\<rparr>)
     = Inr ([(''stats.foo'', 0, 1000), (''stats_counts.foo'', 3, 1000),
             (''stats.gauge.g.value'', 42, 1000), (''statsd.numStats'', 2, 1000),
             (''statsd.flush.counter.count'', 1, 1000), (''statsd.flush.counter.duration'', 0, 1000),
             (''statsd.flush.timer.count'', 0, 1000), (''statsd.flush.timer.duration'', 0, 1000),
             (''statsd.flush.gauge.count'', 1, 1000), (''statsd.flush.gauge.duration'', 0, 1000),
             (''statsd.flush.meter.count'', 0, 1000), (''statsd.flush.meter.duration'', 0, 1000),
             (''statsd.flush.plugin.count'', 0, 1000), (''statsd.flush.plugin.duration'', 0, 1000)],
            (init [])\<lparr>clock := 11, counter_metrics := [(''foo'', 0)], gauge_metrics := [(42, ''g'')]\<rparr>)"
    by code_simp
  from flush_numStats [OF h] h show ?thesis by (rule_tac conjI)
qed

lemma flush_gauges:
  assumes "flush ext interval percent s = Inr (out, s')"
  shows "gauge_metrics s' = gauge_metrics s \<and>
    (\<exists>pre post timestamp. out = pre @
       map (\<lambda>(val, key). (gauge_prefix @ key @ ''.value'', val, timestamp)) (gauge_metrics s) @ post)"
proof -
  from flush_shape [OF assms] obtain counters timers timestamp and rest :: "emission list"
    where g: "gauge_metrics s' = gauge_metrics s"
      and out: "out = concat counters @ concat timers @
         map (\<lambda>(val, key). (gauge_prefix @ key @ ''.value'', val, timestamp)) (gauge_metrics s) @ rest"
    by blast
  have "out = (concat counters @ concat timers) @
         map (\<lambda>(val, key). (gauge_prefix @ key @ ''.value'', val, timestamp)) (gauge_metrics s) @ rest"
    unfolding out by simp
  then have "\<exists>pre post timestamp. out = pre @
       map (\<lambda>(val, key). (gauge_prefix @ key @ ''.value'', val, timestamp)) (gauge_metrics s) @ post"
    by (intro exI)
  with g show ?thesis ..
qed

text \<open>
  Claim C5. Gauge state is retained across flushes: \<open>k\<close> consecutive flushes that return,
  with no gauge sample in between, leave the gauge sequence as it was, and each of them
  emits, contiguously, \<^verbatim>\<open>stats.gauge.<key>.value = value\<close> once for every stored pair in
  insertion order: the same series \<open>k\<close> times, each time under the timestamp of that flush.
\<close>

theorem gauges_retained:
  assumes "flushes ext args s = Inr (outs, s')"
  shows "gauge_metrics s' = gauge_metrics s \<and> length outs = length args \<and>
    (\<forall>out \<in> set outs. \<exists>pre post timestamp. out = pre @
       map (\<lambda>(val, key). (gauge_prefix @ key @ ''.value'', val, timestamp)) (gauge_metrics s) @ post)"
  using assms
proof (induction args arbitrary: s outs)
  case Nil
  then show ?case by simp
next
  case (Cons a args)
  obtain interval percent where a: "a = (interval, percent)" by (cases a)
  from Cons.prems obtain out s1 outs1 where
    f: "flush ext interval percent s = Inr (out, s1)"
    and r: "flushes ext args s1 = Inr (outs1, s')"
    and o: "outs = out # outs1"
    by (auto simp: a bind_res_Inr_iff)
  from flush_gauges [OF f] Cons.IH [OF r] show ?case
    by (auto simp: o)
qed

theorem gauges_retained_witness:
  "flushes frozen_externals [(10000, 90), (10000, 90)] ((init [])\<lparr>gauge_metrics := [(42, ''g'')]\<rparr>)
     = Inr ([[(''stats.gauge.g.value'', 42, 1000), (''statsd.numStats'', 1, 1000),
              (''statsd.flush.counter.count'', 0, 1000), (''statsd.flush.counter.duration'', 0, 1000),
              (''statsd.flush.timer.count'', 0, 1000), (''statsd.flush.timer.duration'', 0, 1000),
              (''statsd.flush.gauge.count'', 1, 1000), (''statsd.flush.gauge.duration'', 0, 1000),
              (''statsd.flush.meter.count'', 0, 1000), (''statsd.flush.meter.duration'', 0, 1000),
              (''statsd.flush.plugin.count'', 0, 1000), (''statsd.flush.plugin.duration'', 0, 1000)],
             [(''stats.gauge.g.value'', 42, 1000), (''statsd.numStats'', 1, 1000),
              (''statsd.flush.counter.count'', 0, 1000), (''statsd.flush.counter.duration'', 0, 1000),
              (''statsd.flush.timer.count'', 0, 1000), (''statsd.flush.timer.duration'', 0, 1000),
              (''statsd.flush.gauge.count'', 1, 1000), (''statsd.flush.gauge.duration'', 0, 1000),
              (''statsd.flush.meter.count'', 0, 1000), (''statsd.flush.meter.duration'', 0, 1000),
              (''statsd.flush.plugin.count'', 0, 1000), (''statsd.flush.plugin.duration'', 0, 1000)]],
            (init [])\<lparr>clock := 22, gauge_metrics := [(42, ''g'')]\<rparr>) \<and>
   gauge_metrics ((init [])\<lparr>clock := 22, gauge_metrics := [(42, ''g'')]\<rparr> :: (rat, bytes, unit) processor)
     = gauge_metrics ((init [])\<lparr>gauge_metrics := [(42, ''g'')]\<rparr> :: (rat, bytes, unit) processor)"
proof -
  let ?out = "[(''stats.gauge.g.value'', 42 :: rat, 1000 :: int), (''statsd.numStats'', 1, 1000),
              (''statsd.flush.counter.count'', 0, 1000), (''statsd.flush.counter.duration'', 0, 1000),
              (''statsd.flush.timer.count'', 0, 1000), (''statsd.flush.timer.duration'', 0, 1000),
              (''statsd.flush.gauge.count'', 1, 1000), (''statsd.flush.gauge.duration'', 0, 1000),
              (''statsd.flush.meter.count'', 0, 1000), (''statsd.flush.meter.duration'', 0, 1000),
              (''statsd.flush.plugin.count'', 0, 1000), (''statsd.flush.plugin.duration'', 0, 1000)]"
  have h: "flushes frozen_externals [(10000, 90), (10000, 90)] ((init [])\<lparr>gauge_metrics := [(42, ''g'')]\<rparr>)
     = Inr ([?out, ?out], (init [])\<lparr>clock := 22, gauge_metrics := [(42, ''g'')]\<rparr>)"
    by code_simp
  from gauges_retained [OF h] h show ?thesis by blast
qed

end
